theory Spec2Isabelle
  imports Main "HOL-Library.Sublist"
begin

section \<open>svd2regs: rendering an SVD device model as register bindings\<close>

text \<open>
  A shallow embedding of \<^verbatim>\<open>tools/svd2regs.py\<close>. The script is Python 2: strings are
  byte strings (here \<open>string\<close>), \<^verbatim>\<open>filter\<close> returns a list, and integers are unbounded
  (here \<open>int\<close>). Every \<^verbatim>\<open>CodeBlock\<close> subclass is a pair of functions: \<open>X_fields\<close>, the
  dictionary its static method \<^verbatim>\<open>fields\<close> builds (a record), and \<open>X\<close>, the class template
  formatted with that dictionary. An exception is a value \<open>Inl e\<close>.
\<close>

subsection \<open>Python string and integer primitives\<close>

text \<open>\<^verbatim>\<open>sep.join(xs)\<close>\<close>

fun join :: "string \<Rightarrow> string list \<Rightarrow> string" where
  "join sep [] = []"
| "join sep [x] = x"
| "join sep (x # y # ys) = x @ sep @ join sep (y # ys)"

text \<open>\<^verbatim>\<open>str.isspace\<close> of a byte in the C locale: space, tab, LF, VT, FF, CR.\<close>

definition isspace :: "char \<Rightarrow> bool" where
  "isspace c = (c \<in> set [CHR '' '', CHR 0x09, CHR 0x0A, CHR 0x0B, CHR 0x0C, CHR 0x0D])"

text \<open>\<^verbatim>\<open>s.strip()\<close>: whitespace removed at both ends.\<close>

definition strip :: "string \<Rightarrow> string" where
  "strip s = rev (dropWhile isspace (rev (dropWhile isspace s)))"

definition ascii_uppercase :: string where
  "ascii_uppercase = ''ABCDEFGHIJKLMNOPQRSTUVWXYZ''"

definition ascii_lowercase :: string where
  "ascii_lowercase = ''abcdefghijklmnopqrstuvwxyz''"

definition isupper :: "char \<Rightarrow> bool" where
  "isupper c = (c \<in> set ascii_uppercase)"

definition islower :: "char \<Rightarrow> bool" where
  "islower c = (c \<in> set ascii_lowercase)"

definition tolower :: "char \<Rightarrow> char" where
  "tolower c = (case map_of (zip ascii_uppercase ascii_lowercase) c of Some d \<Rightarrow> d | None \<Rightarrow> c)"

definition toupper :: "char \<Rightarrow> char" where
  "toupper c = (case map_of (zip ascii_lowercase ascii_uppercase) c of Some d \<Rightarrow> d | None \<Rightarrow> c)"

text \<open>\<^verbatim>\<open>s.lower()\<close>\<close>

definition lower :: "string \<Rightarrow> string" where
  "lower s = map tolower s"

text \<open>
  \<^verbatim>\<open>s.title()\<close>: the first cased character of every run of cased characters upper-cased,
  the others lower-cased. The flag is CPython's \<^verbatim>\<open>previous_is_cased\<close>.
\<close>

fun title_from :: "bool \<Rightarrow> string \<Rightarrow> string" where
  "title_from previous_is_cased [] = []"
| "title_from previous_is_cased (c # cs) =
     (if islower c then (if previous_is_cased then c else toupper c) # title_from True cs
      else if isupper c then (if previous_is_cased then tolower c else c) # title_from True cs
      else c # title_from False cs)"

definition title :: "string \<Rightarrow> string" where
  "title s = title_from False s"

text \<open>\<^verbatim>\<open>s.startswith(p)\<close>\<close>

definition startswith :: "string \<Rightarrow> string \<Rightarrow> bool" where
  "startswith s p = (take (length p) s = p)"

text \<open>
  Digits of a non-negative integer in a base of at most 16, most significant first,
  upper-case; \<open>0\<close> is \<open>''0''\<close>.
\<close>

definition digit_char :: "int \<Rightarrow> char" where
  "digit_char d = ''0123456789ABCDEF'' ! nat d"

function digits_of :: "int \<Rightarrow> int \<Rightarrow> string" where
  "digits_of b n =
     (if b < 2 \<or> n < b then [digit_char n] else digits_of b (n div b) @ [digit_char (n mod b)])"
  by pat_completeness auto
termination
proof (relation "measure (\<lambda>(b, n). nat n)")
  show "wf (measure (\<lambda>(b, n). nat n))"
    by simp
next
  fix b n :: int
  assume a: "\<not> (b < 2 \<or> n < b)"
  then have "n div b < n"
    by (intro int_div_less_self) auto
  with a show "((b, n div b), (b, n)) \<in> measure (\<lambda>(b, n). nat n)"
    by simp
qed

text \<open>\<^verbatim>\<open>str(n)\<close> and \<^verbatim>\<open>"{}".format(n)\<close> of an integer.\<close>

definition str_int :: "int \<Rightarrow> string" where
  "str_int n = (if n < 0 then CHR ''-'' # digits_of 10 (- n) else digits_of 10 n)"

text \<open>
  \<^verbatim>\<open>"{:8X}".format(n)\<close>: upper-case hexadecimal, right-aligned in a field of width 8
  whose fill character is the space.
\<close>

definition format_8X :: "int \<Rightarrow> string" where
  "format_8X n =
     (let s = (if n < 0 then CHR ''-'' # digits_of 16 (- n) else digits_of 16 n)
      in replicate (8 - length s) CHR '' '' @ s)"

subsection \<open>Errors\<close>

text \<open>
  The exceptions rendering can raise: \<^verbatim>\<open>AttributeError\<close> (a string method called on an
  integer; its message names the type and the method only), \<^verbatim>\<open>KeyError\<close> (an access mode
  missing from \<^verbatim>\<open>mode_map\<close>), and whatever \<^verbatim>\<open>pydentifier.upper_camel\<close> raises.
\<close>

datatype py_error = AttributeError | KeyError string | InvalidIdentifier string

text \<open>A generator consumed left to right: the first exception ends it.\<close>

fun traverse :: "('a \<Rightarrow> py_error + 'b) \<Rightarrow> 'a list \<Rightarrow> py_error + 'b list" where
  "traverse g [] = Inr []"
| "traverse g (x # xs) =
     (case g x of
        Inl e \<Rightarrow> Inl e
      | Inr y \<Rightarrow> (case traverse g xs of Inl e \<Rightarrow> Inl e | Inr ys \<Rightarrow> Inr (y # ys)))"

subsection \<open>The device model read by the script\<close>

text \<open>
  The objects of \<^verbatim>\<open>cmsis_svd\<close>, with the attributes the script reads. Field names carry
  a prefix per class: \<open>e_\<close> enumerated value, \<open>f_\<close> field, \<open>r_\<close> register (\<open>r_size\<close>,
  \<open>r_access\<close>, \<open>r_fields\<close> are \<^verbatim>\<open>_size\<close>, \<^verbatim>\<open>_access\<close>, \<^verbatim>\<open>_fields\<close>), \<open>p_\<close> peripheral.
\<close>

record enumerated_value =
  e_name :: string
  e_description :: string
  e_value :: int

record field =
  f_name :: string
  f_description :: string
  f_bit_offset :: int
  f_bit_width :: int
  f_is_enumerated_type :: bool
  f_enumerated_values :: "enumerated_value list"

record register =
  r_name :: string
  r_description :: string
  r_size :: int
  r_access :: string
  r_fields :: "field list"

record peripheral =
  p_name :: string
  p_description :: string
  p_base_address :: int
  p_registers :: "register list"

record device =
  peripherals :: "peripheral list"

subsection \<open>\<^verbatim>\<open>comment\<close> and the prelude\<close>

definition COMMENT_MAX_LENGTH :: nat where
  "COMMENT_MAX_LENGTH = 80"

definition RUST_KEYWORDS :: "string list" where
  "RUST_KEYWORDS = [''mod'']"

definition comment :: "string \<Rightarrow> string" where
  "comment text = ''/// '' @ strip (take COMMENT_MAX_LENGTH text)"

definition Includes :: string where
  "Includes =
     ''\<newline>use kernel::StaticRef;\<newline>'' @
     ''use kernel::common::regs::{self, ReadOnly, ReadWrite, WriteOnly};\<newline>    ''"

subsection \<open>\<^verbatim>\<open>PeripheralBaseDeclaration\<close>\<close>

record base_dict =
  bd_name :: string
  bd_title :: string
  bd_base :: int

definition PeripheralBaseDeclaration_fields :: "peripheral \<Rightarrow> base_dict" where
  "PeripheralBaseDeclaration_fields peripheral =
     \<lparr>bd_name = p_name peripheral,
      bd_title = title (p_name peripheral),
      bd_base = p_base_address peripheral\<rparr>"

definition PeripheralBaseDeclaration :: "peripheral \<Rightarrow> string" where
  "PeripheralBaseDeclaration peripheral =
     (let d = PeripheralBaseDeclaration_fields peripheral
      in ''\<newline>const '' @ bd_name d @ ''_BASE: StaticRef<'' @ bd_title d @ ''Registers> =\<newline>'' @
         ''    unsafe { StaticRef::new(0x'' @ format_8X (bd_base d) @ '' as *const '' @
         bd_title d @ ''Registers) };\<newline>'')"

subsection \<open>\<^verbatim>\<open>PeripheralStructField\<close> and \<^verbatim>\<open>PeripheralStruct\<close>\<close>

definition mode_map :: "(string \<times> string) list" where
  "mode_map =
     [(''read-only'', ''ReadOnly''),
      (''read-write'', ''ReadWrite''),
      (''write-only'', ''WriteOnly'')]"

text \<open>The local function \<^verbatim>\<open>identifier\<close> of \<^verbatim>\<open>PeripheralStructField.fields\<close>.\<close>

definition register_identifier :: "string \<Rightarrow> string" where
  "register_identifier name =
     (let identifier = lower name
      in if identifier \<in> set RUST_KEYWORDS then identifier @ ''_'' else identifier)"

text \<open>The local function \<^verbatim>\<open>definition\<close> of \<^verbatim>\<open>PeripheralStructField.fields\<close>.\<close>

definition register_definition :: "register \<Rightarrow> string" where
  "register_definition reg =
     (if length (r_fields reg) = 1 then [] else '', '' @ r_name reg @ ''::Register'')"

record struct_field_dict =
  sf_comment :: string
  sf_name :: string
  sf_size :: int
  sf_mode :: string
  sf_definition :: string

definition PeripheralStructField_fields :: "register \<Rightarrow> py_error + struct_field_dict" where
  "PeripheralStructField_fields register =
     (case map_of mode_map (r_access register) of
        None \<Rightarrow> Inl (KeyError (r_access register))
      | Some mode \<Rightarrow>
          Inr \<lparr>sf_comment = comment (r_description register),
               sf_name = register_identifier (r_name register),
               sf_size = r_size register,
               sf_mode = mode,
               sf_definition = register_definition register\<rparr>)"

definition PeripheralStructField :: "register \<Rightarrow> py_error + string" where
  "PeripheralStructField register =
     (case PeripheralStructField_fields register of
        Inl e \<Rightarrow> Inl e
      | Inr d \<Rightarrow>
          Inr (sf_comment d @ ''\<newline>'' @ sf_name d @ '': '' @ sf_mode d @ ''<u'' @
               str_int (sf_size d) @ sf_definition d @ ''>,''))"

definition PeripheralStruct :: "peripheral \<Rightarrow> py_error + string" where
  "PeripheralStruct peripheral =
     (case traverse PeripheralStructField (p_registers peripheral) of
        Inl e \<Rightarrow> Inl e
      | Inr lines \<Rightarrow>
          Inr (comment (p_description peripheral) @ ''\<newline>#[repr(C, packed)]\<newline>struct '' @
               title (p_name peripheral) @ ''Registers {\<newline>'' @
               join ''\<newline>'' lines @ ''\<newline>}\<newline>''))"

subsection \<open>\<^verbatim>\<open>BitfieldFieldEnum\<close>\<close>

text \<open>
  The values \<^verbatim>\<open>enum_identifier\<close> hands to \<^verbatim>\<open>identifier\<close>: the description and the name
  are strings, the literal value is an integer.
\<close>

datatype pyobj = PyStr string | PyInt int

text \<open>
  The local function \<^verbatim>\<open>identifier\<close> of \<^verbatim>\<open>BitfieldFieldEnum.fields\<close>. The library
  function \<^verbatim>\<open>pydentifier.upper_camel\<close> is the parameter \<open>upper_camel\<close>; it may raise.
  An integer has no method \<^verbatim>\<open>startswith\<close>: the call raises \<^verbatim>\<open>AttributeError\<close>.
\<close>

fun enum_ident :: "(string \<Rightarrow> py_error + string) \<Rightarrow> pyobj \<Rightarrow> py_error + string option" where
  "enum_ident upper_camel (PyInt n) = Inl AttributeError"
| "enum_ident upper_camel (PyStr desc) =
     (let desc' = (if list_ex (\<lambda>digit. startswith desc (str_int digit)) [0, 1, 2, 3, 4, 5, 6, 7, 8, 9]
                   then ''_'' @ desc else desc)
      in case upper_camel desc' of
           Inl e \<Rightarrow> Inl e
         | Inr i \<Rightarrow> Inr (if length i < 80 then Some i else None))"

text \<open>
  The loop of \<^verbatim>\<open>enum_identifier\<close>: the first candidate whose identifier is truthy (neither
  \<^verbatim>\<open>None\<close> nor empty) is returned; falling off the loop returns \<^verbatim>\<open>None\<close>.
\<close>

fun enum_identifier_loop ::
  "(string \<Rightarrow> py_error + string) \<Rightarrow> pyobj list \<Rightarrow> py_error + string option" where
  "enum_identifier_loop upper_camel [] = Inr None"
| "enum_identifier_loop upper_camel (t # ts) =
     (case enum_ident upper_camel t of
        Inl e \<Rightarrow> Inl e
      | Inr None \<Rightarrow> enum_identifier_loop upper_camel ts
      | Inr (Some i) \<Rightarrow> if i \<noteq> [] then Inr (Some i) else enum_identifier_loop upper_camel ts)"

definition enum_identifier ::
  "(string \<Rightarrow> py_error + string) \<Rightarrow> enumerated_value \<Rightarrow> py_error + string option" where
  "enum_identifier upper_camel e =
     enum_identifier_loop upper_camel
       [PyStr (e_description e), PyStr (e_name e), PyInt (e_value e)]"

record enum_dict =
  en_comment :: string
  en_name :: "string option"
  en_value :: int

definition BitfieldFieldEnum_fields ::
  "(string \<Rightarrow> py_error + string) \<Rightarrow> enumerated_value \<Rightarrow> py_error + enum_dict" where
  "BitfieldFieldEnum_fields upper_camel enum =
     (case enum_identifier upper_camel enum of
        Inl e \<Rightarrow> Inl e
      | Inr i \<Rightarrow>
          Inr \<lparr>en_comment = comment (e_description enum),
               en_name = i,
               en_value = e_value enum\<rparr>)"

text \<open>\<^verbatim>\<open>"{}".format(x)\<close> of a string or \<^verbatim>\<open>None\<close>.\<close>

definition format_opt :: "string option \<Rightarrow> string" where
  "format_opt x = (case x of None \<Rightarrow> ''None'' | Some s \<Rightarrow> s)"

definition BitfieldFieldEnum ::
  "(string \<Rightarrow> py_error + string) \<Rightarrow> enumerated_value \<Rightarrow> py_error + string" where
  "BitfieldFieldEnum upper_camel enum =
     (case BitfieldFieldEnum_fields upper_camel enum of
        Inl e \<Rightarrow> Inl e
      | Inr d \<Rightarrow>
          Inr (''        '' @ en_comment d @ ''\<newline>        '' @ format_opt (en_name d) @
               '' = '' @ str_int (en_value d)))"

subsection \<open>\<^verbatim>\<open>BitfieldField\<close>\<close>

text \<open>
  \<^verbatim>\<open>BitfieldField.enumerated_values\<close>: the loop appends a value when its description is not
  among those already kept.
\<close>

fun enumerated_values_loop ::
  "enumerated_value list \<Rightarrow> enumerated_value list \<Rightarrow> enumerated_value list" where
  "enumerated_values_loop values [] = values"
| "enumerated_values_loop values (v # vs) =
     (if e_description v \<notin> set (map e_description values)
      then enumerated_values_loop (values @ [v]) vs
      else enumerated_values_loop values vs)"

definition enumerated_values :: "field \<Rightarrow> enumerated_value list" where
  "enumerated_values fld = enumerated_values_loop [] (f_enumerated_values fld)"

record bitfield_field_dict =
  bf_comment :: string
  bf_name :: string
  bf_offset :: int
  bf_size :: int
  bf_enums :: string

definition BitfieldField_fields ::
  "(string \<Rightarrow> py_error + string) \<Rightarrow> field \<Rightarrow> py_error + bitfield_field_dict" where
  "BitfieldField_fields upper_camel fld =
     (case (if \<not> f_is_enumerated_type fld then Inr ''[]''
            else (case traverse (BitfieldFieldEnum upper_camel) (enumerated_values fld) of
                    Inl e \<Rightarrow> Inl e
                  | Inr blocks \<Rightarrow>
                      Inr (''[\<newline>'' @ join '',\<newline>'' blocks @ ''\<newline>    ]''))) of
        Inl e \<Rightarrow> Inl e
      | Inr enums \<Rightarrow>
          Inr \<lparr>bf_comment = comment (f_description fld),
               bf_name = f_name fld,
               bf_offset = f_bit_offset fld,
               bf_size = f_bit_width fld,
               bf_enums = enums\<rparr>)"

definition BitfieldField ::
  "(string \<Rightarrow> py_error + string) \<Rightarrow> field \<Rightarrow> py_error + string" where
  "BitfieldField upper_camel fld =
     (case BitfieldField_fields upper_camel fld of
        Inl e \<Rightarrow> Inl e
      | Inr d \<Rightarrow>
          Inr (''    '' @ bf_comment d @ ''\<newline>    '' @ bf_name d @
               '' OFFSET('' @ str_int (bf_offset d) @ '') NUMBITS('' @ str_int (bf_size d) @
               '') '' @ bf_enums d))"

subsection \<open>\<^verbatim>\<open>Bitfield\<close> and \<^verbatim>\<open>BitfieldsMacro\<close>\<close>

definition Bitfield :: "(string \<Rightarrow> py_error + string) \<Rightarrow> register \<Rightarrow> py_error + string" where
  "Bitfield upper_camel register =
     (case traverse (BitfieldField upper_camel) (r_fields register) of
        Inl e \<Rightarrow> Inl e
      | Inr blocks \<Rightarrow>
          Inr (''\<newline>'' @ r_name register @ '' [\<newline>'' @ join '',\<newline>'' blocks @ ''\<newline>]''))"

record macro_dict =
  bm_size :: int
  bm_bitfields :: string

definition BitfieldsMacro_fields ::
  "(string \<Rightarrow> py_error + string) \<Rightarrow> register list \<Rightarrow> py_error + macro_dict" where
  "BitfieldsMacro_fields upper_camel registers =
     (case traverse (Bitfield upper_camel) registers of
        Inl e \<Rightarrow> Inl e
      | Inr blocks \<Rightarrow> Inr \<lparr>bm_size = 32, bm_bitfields = join '','' blocks\<rparr>)"

definition BitfieldsMacro ::
  "(string \<Rightarrow> py_error + string) \<Rightarrow> register list \<Rightarrow> py_error + string" where
  "BitfieldsMacro upper_camel registers =
     (case BitfieldsMacro_fields upper_camel registers of
        Inl e \<Rightarrow> Inl e
      | Inr d \<Rightarrow>
          Inr (''register_bitfields![u'' @ str_int (bm_size d) @ '','' @ bm_bitfields d @
               ''\<newline>];''))"

subsection \<open>\<^verbatim>\<open>generate_peripherial\<close>, \<^verbatim>\<open>generate\<close>, \<^verbatim>\<open>parse\<close>\<close>

definition generate_peripheral_struct :: "peripheral \<Rightarrow> py_error + string" where
  "generate_peripheral_struct peripheral = PeripheralStruct peripheral"

definition generate_bitfields_macro ::
  "(string \<Rightarrow> py_error + string) \<Rightarrow> register list \<Rightarrow> py_error + string" where
  "generate_bitfields_macro upper_camel registers = BitfieldsMacro upper_camel registers"

text \<open>The three operands of the sum are evaluated from left to right.\<close>

definition generate_peripherial ::
  "(string \<Rightarrow> py_error + string) \<Rightarrow> peripheral \<Rightarrow> py_error + string" where
  "generate_peripherial upper_camel peripheral =
     (case generate_peripheral_struct peripheral of
        Inl e \<Rightarrow> Inl e
      | Inr s \<Rightarrow>
          (case generate_bitfields_macro upper_camel
                  (filter (\<lambda>r. length (r_fields r) > 1) (p_registers peripheral)) of
             Inl e \<Rightarrow> Inl e
           | Inr m \<Rightarrow> Inr (s @ m @ PeripheralBaseDeclaration peripheral)))"

definition generate ::
  "(string \<Rightarrow> py_error + string) \<Rightarrow> peripheral list \<Rightarrow> py_error + string" where
  "generate upper_camel ps =
     (case traverse (generate_peripherial upper_camel) ps of
        Inl e \<Rightarrow> Inl e
      | Inr blocks \<Rightarrow> Inr (Includes @ join ''\<newline>'' blocks))"

text \<open>
  \<^verbatim>\<open>parse\<close>, from the device that \<^verbatim>\<open>svd_parser.get_device()\<close> returns: the list of
  requested names is replaced by all names when it is empty, and the device's peripherals
  are filtered by membership of their name in that list.
\<close>

definition parse :: "string list \<Rightarrow> device \<Rightarrow> peripheral list" where
  "parse names dev =
     (let names' = (if names = [] then map p_name (peripherals dev) else names)
      in filter (\<lambda>p. p_name p \<in> set names') (peripherals dev))"

text \<open>The composition in \<^verbatim>\<open>main\<close>: \<^verbatim>\<open>generate(parse(args.peripherals, ...))\<close>.\<close>

definition render ::
  "(string \<Rightarrow> py_error + string) \<Rightarrow> device \<Rightarrow> string list \<Rightarrow> py_error + string" where
  "render upper_camel dev selected_names = generate upper_camel (parse selected_names dev)"

subsection \<open>Example inputs\<close>

text \<open>
  A stand-in for \<^verbatim>\<open>pydentifier.upper_camel\<close> on the examples below, whose texts are
  single capitalised words, which upper camel case leaves as they are: it returns its
  argument.
\<close>

definition upper_camel_stub :: "string \<Rightarrow> py_error + string" where
  "upper_camel_stub s = Inr s"

definition uart0 :: peripheral where
  "uart0 = \<lparr>p_name = ''UART0'', p_description = ''Serial port 0'',
     p_base_address = 0x40001000, p_registers = []\<rparr>"

definition uart1 :: peripheral where
  "uart1 = \<lparr>p_name = ''UART1'', p_description = ''Serial port 1'',
     p_base_address = 0x40002000, p_registers = []\<rparr>"

definition uart_device :: device where
  "uart_device = \<lparr>peripherals = [uart0, uart1]\<rparr>"

definition counter_value :: field where
  "counter_value = \<lparr>f_name = ''VALUE'', f_description = ''Counter value'', f_bit_offset = 0,
     f_bit_width = 16, f_is_enumerated_type = False, f_enumerated_values = []\<rparr>"

definition timer_count :: register where
  "timer_count = \<lparr>r_name = ''COUNT'', r_description = ''Counter'', r_size = 16,
     r_access = ''read-only'', r_fields = [counter_value]\<rparr>"

definition timer0 :: peripheral where
  "timer0 = \<lparr>p_name = ''TIMER0'', p_description = ''Timer'', p_base_address = 0x40003000,
     p_registers = [timer_count]\<rparr>"

definition port_dir :: register where
  "port_dir = \<lparr>r_name = ''DIR'', r_description = ''Direction'', r_size = 8,
     r_access = ''read-write'', r_fields =
       [\<lparr>f_name = ''PIN0'', f_description = ''Pin 0'', f_bit_offset = 0, f_bit_width = 1,
          f_is_enumerated_type = False, f_enumerated_values = []\<rparr>,
        \<lparr>f_name = ''PIN1'', f_description = ''Pin 1'', f_bit_offset = 1, f_bit_width = 1,
          f_is_enumerated_type = False, f_enumerated_values = []\<rparr>]\<rparr>"

definition port_a :: peripheral where
  "port_a = \<lparr>p_name = ''PORTA'', p_description = ''Port A'', p_base_address = 0x1000,
     p_registers = [port_dir]\<rparr>"

definition uart_data :: register where
  "uart_data = \<lparr>r_name = ''DATA'', r_description = ''Data register'', r_size = 8,
     r_access = ''read-write'', r_fields = []\<rparr>"

definition uart2 :: peripheral where
  "uart2 = \<lparr>p_name = ''UART2'', p_description = ''Serial port 2'',
     p_base_address = 0x40004000, p_registers = [uart_data]\<rparr>"

definition ctrl_example ::
  "string \<Rightarrow> string \<Rightarrow> string \<Rightarrow> string \<Rightarrow> int \<Rightarrow> string \<Rightarrow> int \<Rightarrow> register" where
  "ctrl_example rd d_en d_mode n1 v1 n2 v2 =
     \<lparr>r_name = ''CTRL'', r_description = rd, r_size = 32, r_access = ''read-write'',
      r_fields =
        [\<lparr>f_name = ''EN'', f_description = d_en, f_bit_offset = 0, f_bit_width = 1,
           f_is_enumerated_type = False, f_enumerated_values = []\<rparr>,
         \<lparr>f_name = ''MODE'', f_description = d_mode, f_bit_offset = 1, f_bit_width = 2,
           f_is_enumerated_type = True,
           f_enumerated_values =
             [\<lparr>e_name = n1, e_description = ''Fast'', e_value = v1\<rparr>,
              \<lparr>e_name = n2, e_description = ''Slow'', e_value = v2\<rparr>]\<rparr>]\<rparr>"

definition ctrl_register :: register where
  "ctrl_register = ctrl_example ''Control'' ''Enable'' ''Mode'' ''FAST'' 0 ''SLOW'' 1"




definition mod_field :: field where
  "mod_field = \<lparr>f_name = ''mod'', f_description = ''Modulo'', f_bit_offset = 3,
     f_bit_width = 1, f_is_enumerated_type = False, f_enumerated_values = []\<rparr>"





definition timer_mod :: register where
  "timer_mod = \<lparr>r_name = ''MOD'', r_description = ''Modulo'', r_size = 16,
     r_access = ''read-write'', r_fields = [counter_value]\<rparr>"

section \<open>Properties\<close>

subsection \<open>Auxiliary facts\<close>



lemma parse_some:
  "names \<noteq> [] \<Longrightarrow> parse names dev = filter (\<lambda>p. p_name p \<in> set names) (peripherals dev)"
  by (simp add: parse_def)


lemma str_int_32: "str_int 32 = ''32''"
  by code_simp

lemma generate_peripherial_Inr:
  "generate_peripherial upper_camel p = Inr out \<longleftrightarrow>
     (\<exists>s blocks. PeripheralStruct p = Inr s \<and>
        traverse (Bitfield upper_camel)
          (filter (\<lambda>r. length (r_fields r) > 1) (p_registers p)) = Inr blocks \<and>
        out = s @ ''register_bitfields![u32,'' @ join '','' blocks @ ''\<newline>];'' @
              PeripheralBaseDeclaration p)"
  by (auto simp: generate_peripherial_def generate_peripheral_struct_def
      generate_bitfields_macro_def BitfieldsMacro_def BitfieldsMacro_fields_def str_int_32
      split: sum.splits)

lemma str_int_small:
  "str_int 0 = ''0''" "str_int 1 = ''1''" "str_int 2 = ''2''"
  by code_simp+

lemma comment_Fast_Slow: "comment ''Fast'' = ''/// Fast''" "comment ''Slow'' = ''/// Slow''"
  by code_simp+

lemma no_digit_Fast_Slow:
  "\<not> list_ex (\<lambda>digit. startswith ''Fast'' (str_int digit)) [0, 1, 2, 3, 4, 5, 6, 7, 8, 9]"
  "\<not> list_ex (\<lambda>digit. startswith ''Slow'' (str_int digit)) [0, 1, 2, 3, 4, 5, 6, 7, 8, 9]"
  by code_simp+

lemma register_identifier_CTRL: "register_identifier ''CTRL'' = ''ctrl''"
  by code_simp

lemma mode_map_read_write: "map_of mode_map ''read-write'' = Some ''ReadWrite''"
  by code_simp

lemma enum_ident_Fast:
  assumes "upper_camel ''Fast'' = Inr ''Fast''"
  shows "enum_ident upper_camel (PyStr ''Fast'') = Inr (Some ''Fast'')"
  by (simp only: enum_ident.simps no_digit_Fast_Slow if_False Let_def assms) simp

lemma enum_ident_Slow:
  assumes "upper_camel ''Slow'' = Inr ''Slow''"
  shows "enum_ident upper_camel (PyStr ''Slow'') = Inr (Some ''Slow'')"
  by (simp only: enum_ident.simps no_digit_Fast_Slow if_False Let_def assms) simp

lemma BitfieldFieldEnum_Fast:
  assumes "upper_camel ''Fast'' = Inr ''Fast''"
  shows "BitfieldFieldEnum upper_camel \<lparr>e_name = n, e_description = ''Fast'', e_value = v\<rparr> =
     Inr (''        /// Fast\<newline>        Fast = '' @ str_int v)"
  by (simp add: BitfieldFieldEnum_def BitfieldFieldEnum_fields_def enum_identifier_def
      enum_ident_Fast assms comment_Fast_Slow format_opt_def del: enum_ident.simps)

lemma BitfieldFieldEnum_Slow:
  assumes "upper_camel ''Slow'' = Inr ''Slow''"
  shows "BitfieldFieldEnum upper_camel \<lparr>e_name = n, e_description = ''Slow'', e_value = v\<rparr> =
     Inr (''        /// Slow\<newline>        Slow = '' @ str_int v)"
  by (simp add: BitfieldFieldEnum_def BitfieldFieldEnum_fields_def enum_identifier_def
      enum_ident_Slow assms comment_Fast_Slow format_opt_def del: enum_ident.simps)









lemma enum_ident_Some:
  "enum_ident upper_camel t = Inr (Some i) \<Longrightarrow> length i < 80 \<and> (\<exists>s. upper_camel s = Inr i)"
  by (cases t) (auto simp: Let_def split: sum.splits if_splits)

lemma enum_identifier_Inr:
  assumes "enum_identifier upper_camel e = Inr x"
  shows "\<exists>i. x = Some i \<and> i \<noteq> [] \<and> length i < 80 \<and> (\<exists>s. upper_camel s = Inr i)"
proof -
  let ?d = "enum_ident upper_camel (PyStr (e_description e))"
  let ?n = "enum_ident upper_camel (PyStr (e_name e))"
  from assms have "(\<exists>i. ?d = Inr (Some i) \<and> i \<noteq> [] \<and> x = Some i) \<or>
      (\<exists>i. ?n = Inr (Some i) \<and> i \<noteq> [] \<and> x = Some i)"
    by (simp add: enum_identifier_def del: enum_ident.simps(2)
        split: sum.splits option.splits if_splits)
  then show ?thesis
    using enum_ident_Some by blast
qed











lemma BitfieldFieldEnum_text:
  assumes "BitfieldFieldEnum upper_camel e = Inr b"
  shows "\<exists>i. b = ''        '' @ comment (e_description e) @ ''\<newline>        '' @ i @ '' = '' @
        str_int (e_value e) \<and>
      enum_identifier upper_camel e = Inr (Some i)"
proof -
  from assms obtain x where x: "enum_identifier upper_camel e = Inr x"
    and b: "b = ''        '' @ comment (e_description e) @ ''\<newline>        '' @ format_opt x @
      '' = '' @ str_int (e_value e)"
    by (auto simp: BitfieldFieldEnum_def BitfieldFieldEnum_fields_def split: sum.splits)
  from enum_identifier_Inr [OF x] obtain i where "x = Some i" by blast
  with x b show ?thesis
    by (simp add: format_opt_def)
qed

subsection \<open>Selection and assembly\<close>



text \<open>
  C1 (as stated, refuted). The claim: a selected name that no peripheral carries makes
  \<open>render\<close> fail with an error naming it. The device \<open>uart_device\<close> holds \<open>UART0\<close> and
  \<open>UART1\<close>; selecting \<open>GPIOX\<close> returns the prelude alone, not an error.
\<close>

theorem render_absent_counterexample:
  "render upper_camel_stub uart_device [''GPIOX''] = Inr Includes"
  by code_simp


text \<open>
  C1 (amended). \<open>parse\<close> filters the device's peripherals by membership of their name in
  the selected names and raises nothing: a selected name that no peripheral carries is
  skipped. The kept peripherals are those named by the other selected names, \<open>render\<close>
  returns what \<open>generate\<close> returns for exactly these, with no error on account of the
  absent name, and when the selection is non-empty and none of its names is carried by a
  peripheral, \<open>render\<close> returns the prelude \<open>Includes\<close> alone.
\<close>

theorem render_absent_name:
  "(n \<in> set selected_names \<and> n \<notin> p_name ` set (peripherals dev) \<longrightarrow>
      parse selected_names dev =
        filter (\<lambda>p. p_name p \<in> set selected_names - {n}) (peripherals dev) \<and>
      render upper_camel dev selected_names =
        generate upper_camel
          (filter (\<lambda>p. p_name p \<in> set selected_names - {n}) (peripherals dev))) \<and>
   (selected_names \<noteq> [] \<and> (\<forall>n \<in> set selected_names. n \<notin> p_name ` set (peripherals dev)) \<longrightarrow>
      render upper_camel dev selected_names = Inr Includes)"
proof (intro conjI impI)
  assume a: "n \<in> set selected_names \<and> n \<notin> p_name ` set (peripherals dev)"
  then have ne: "selected_names \<noteq> []" by auto
  from a have "filter (\<lambda>p. p_name p \<in> set selected_names) (peripherals dev) =
      filter (\<lambda>p. p_name p \<in> set selected_names - {n}) (peripherals dev)"
    by (intro filter_cong) auto
  with ne show p: "parse selected_names dev =
      filter (\<lambda>p. p_name p \<in> set selected_names - {n}) (peripherals dev)"
    by (simp add: parse_some)
  show "render upper_camel dev selected_names =
      generate upper_camel
        (filter (\<lambda>p. p_name p \<in> set selected_names - {n}) (peripherals dev))"
    by (simp only: render_def p)
next
  assume a: "selected_names \<noteq> [] \<and>
    (\<forall>n \<in> set selected_names. n \<notin> p_name ` set (peripherals dev))"
  then have "filter (\<lambda>p. p_name p \<in> set selected_names) (peripherals dev) = []"
    by (auto simp: filter_empty_conv)
  with a have "parse selected_names dev = []"
    by (simp add: parse_some)
  then show "render upper_camel dev selected_names = Inr Includes"
    by (simp add: render_def generate_def)
qed

theorem render_absent_name_witness:
  "parse [''UART1'', ''GPIOX''] uart_device = [uart1] \<and>
   render upper_camel_stub uart_device [''UART1'', ''GPIOX''] =
     generate upper_camel_stub [uart1] \<and>
   render upper_camel_stub uart_device [''UART1'', ''GPIOX''] =
     Inr (Includes @ ''/// Serial port 1\<newline>#[repr(C, packed)]\<newline>struct Uart1Registers {\<newline>\<newline>}\<newline>register_bitfields![u32,\<newline>];\<newline>const UART1_BASE: StaticRef<Uart1Registers> =\<newline>    unsafe { StaticRef::new(0x40002000 as *const Uart1Registers) };\<newline>'') \<and>
   render upper_camel_stub uart_device [''GPIOX'', ''ADC''] = Inr Includes"
proof -
  have a: "''GPIOX'' \<in> set [''UART1'', ''GPIOX''] \<and>
      ''GPIOX'' \<notin> p_name ` set (peripherals uart_device)"
    by code_simp
  have b: "[''GPIOX'', ''ADC''] \<noteq> [] \<and>
      (\<forall>n \<in> set [''GPIOX'', ''ADC'']. n \<notin> p_name ` set (peripherals uart_device))"
    by code_simp
  have c: "filter (\<lambda>p. p_name p \<in> set [''UART1'', ''GPIOX''] - {''GPIOX''})
      (peripherals uart_device) = [uart1]"
    by code_simp
  have g: "generate upper_camel_stub [uart1] =
     Inr (Includes @ ''/// Serial port 1\<newline>#[repr(C, packed)]\<newline>struct Uart1Registers {\<newline>\<newline>}\<newline>register_bitfields![u32,\<newline>];\<newline>const UART1_BASE: StaticRef<Uart1Registers> =\<newline>    unsafe { StaticRef::new(0x40002000 as *const Uart1Registers) };\<newline>'')"
    by code_simp
  from render_absent_name [of "''GPIOX''" "[''UART1'', ''GPIOX'']" uart_device upper_camel_stub]
    a c
  have 1: "parse [''UART1'', ''GPIOX''] uart_device = [uart1]"
    and 2: "render upper_camel_stub uart_device [''UART1'', ''GPIOX''] =
      generate upper_camel_stub [uart1]"
    by simp_all
  from render_absent_name [of _ "[''GPIOX'', ''ADC'']" uart_device upper_camel_stub] b
  have 3: "render upper_camel_stub uart_device [''GPIOX'', ''ADC''] = Inr Includes"
    by blast
  from 1 2 3 g show ?thesis by simp
qed

subsection \<open>The bitfields container\<close>

text \<open>
  C3 (as stated, refuted). The claim: a peripheral in which no register has more than one
  field is rendered without any bitfields container. The peripheral \<open>timer0\<close> has one
  register with one field; its rendering holds the container, with nothing in it.
\<close>

theorem empty_bitfields_container_counterexample:
  "generate_peripherial upper_camel_stub timer0 =
     Inr ''/// Timer\<newline>#[repr(C, packed)]\<newline>struct Timer0Registers {\<newline>/// Counter\<newline>count: ReadOnly<u16>,\<newline>}\<newline>register_bitfields![u32,\<newline>];\<newline>const TIMER0_BASE: StaticRef<Timer0Registers> =\<newline>    unsafe { StaticRef::new(0x40003000 as *const Timer0Registers) };\<newline>''"
  by code_simp


text \<open>
  C3 (amended). \<open>generate_peripherial\<close> always calls \<open>BitfieldsMacro\<close>: for a peripheral in
  which no register has more than one field, and whose struct renders, the output is the
  struct, then the container with no block in it, then the base-address declaration.
\<close>

theorem empty_bitfields_container:
  assumes "\<forall>r \<in> set (p_registers p). length (r_fields r) \<le> 1"
    and "PeripheralStruct p = Inr s"
  shows "generate_peripherial upper_camel p =
     Inr (s @ ''register_bitfields![u32,\<newline>];'' @ PeripheralBaseDeclaration p)"
proof -
  from assms(1) have "filter (\<lambda>r. length (r_fields r) > 1) (p_registers p) = []"
    by (auto simp: filter_empty_conv)
  with assms(2) show ?thesis
    by (simp add: generate_peripherial_Inr)
qed

theorem empty_bitfields_container_witness:
  "map (\<lambda>r. length (r_fields r)) (p_registers timer0) = [1] \<and>
   (\<exists>s. PeripheralStruct timer0 = Inr s \<and>
      generate_peripherial upper_camel_stub timer0 =
        Inr (s @ ''register_bitfields![u32,\<newline>];'' @ PeripheralBaseDeclaration timer0))"
proof -
  have a: "\<forall>r \<in> set (p_registers timer0). length (r_fields r) \<le> 1"
    by code_simp
  have b: "PeripheralStruct timer0 =
      Inr ''/// Timer\<newline>#[repr(C, packed)]\<newline>struct Timer0Registers {\<newline>/// Counter\<newline>count: ReadOnly<u16>,\<newline>}\<newline>''"
    by code_simp
  have c: "map (\<lambda>r. length (r_fields r)) (p_registers timer0) = [1]"
    by code_simp
  from empty_bitfields_container [OF a b, of upper_camel_stub] b c
  show ?thesis by simp
qed

text \<open>
  C10. \<open>BitfieldsMacro_fields\<close> sets the size to the constant 32: whenever a peripheral
  renders, its output is the struct, then the container opened by \<open>register_bitfields![u32,\<close>
  around the blocks of the registers with more than one field, then the base-address
  declaration. The registers' own widths \<open>r_size\<close> do not occur in the container's header;
  in the witness every register of the peripheral is 8 bits wide.
\<close>

theorem bitfields_container_width:
  assumes "generate_peripherial upper_camel p = Inr out"
  shows "\<exists>s blocks. PeripheralStruct p = Inr s \<and>
     traverse (Bitfield upper_camel)
       (filter (\<lambda>r. length (r_fields r) > 1) (p_registers p)) = Inr blocks \<and>
     out = s @ ''register_bitfields![u32,'' @ join '','' blocks @ ''\<newline>];'' @
           PeripheralBaseDeclaration p"
  using assms by (simp add: generate_peripherial_Inr)

theorem bitfields_container_width_witness:
  "map r_size (p_registers port_a) = [8] \<and>
   (\<exists>s blocks. PeripheralStruct port_a = Inr s \<and>
      generate_peripherial upper_camel_stub port_a =
        Inr (s @ ''register_bitfields![u32,'' @ join '','' blocks @ ''\<newline>];'' @
             PeripheralBaseDeclaration port_a))"
proof -
  define out where "out = ''/// Port A\<newline>#[repr(C, packed)]\<newline>struct PortaRegisters {\<newline>/// Direction\<newline>dir: ReadWrite<u8, DIR::Register>,\<newline>}\<newline>register_bitfields![u32,\<newline>DIR [\<newline>    /// Pin 0\<newline>    PIN0 OFFSET(0) NUMBITS(1) [],\<newline>    /// Pin 1\<newline>    PIN1 OFFSET(1) NUMBITS(1) []\<newline>]\<newline>];\<newline>const PORTA_BASE: StaticRef<PortaRegisters> =\<newline>    unsafe { StaticRef::new(0x    1000 as *const PortaRegisters) };\<newline>''"
  have g: "generate_peripherial upper_camel_stub port_a = Inr out"
    unfolding out_def by code_simp
  have w: "map r_size (p_registers port_a) = [8]"
    by code_simp
  from bitfields_container_width [OF g] obtain s blocks where
    "PeripheralStruct port_a = Inr s"
    "out = s @ ''register_bitfields![u32,'' @ join '','' blocks @ ''\<newline>];'' @
       PeripheralBaseDeclaration port_a"
    by (elim exE conjE)
  with g w show ?thesis
    by (intro conjI exI [of _ s] exI [of _ blocks]) simp_all
qed


subsection \<open>Struct members\<close>

text \<open>
  C4 (the code departs from the claim). The claim: a register's struct member carries a
  second type parameter exactly when the register has more than one field. The local
  function \<^verbatim>\<open>definition\<close> tests \<^verbatim>\<open>len(reg._fields) == 1\<close>, whereas \<^verbatim>\<open>generate_peripherial\<close>
  selects the registers of the container with \<^verbatim>\<open>len(r._fields) > 1\<close>. For the register
  \<open>uart_data\<close>, which has no field, the member refers to \<open>DATA::Register\<close> while the
  container of its peripheral holds no block \<open>DATA\<close>.
\<close>

theorem zero_field_register_reference:
  "PeripheralStructField uart_data =
     Inr ''/// Data register\<newline>data: ReadWrite<u8, DATA::Register>,'' \<and>
   length (r_fields uart_data) = 0 \<and>
   generate_peripherial upper_camel_stub uart2 =
     Inr ''/// Serial port 2\<newline>#[repr(C, packed)]\<newline>struct Uart2Registers {\<newline>/// Data register\<newline>data: ReadWrite<u8, DATA::Register>,\<newline>}\<newline>register_bitfields![u32,\<newline>];\<newline>const UART2_BASE: StaticRef<Uart2Registers> =\<newline>    unsafe { StaticRef::new(0x40004000 as *const Uart2Registers) };\<newline>''"
  by code_simp


subsection \<open>The base-address declaration\<close>

text \<open>
  C8 (the code departs from the claim). The claim: the address literal is the base address
  in hexadecimal, well formed also below eight hexadecimal digits. The template formats
  the address with \<^verbatim>\<open>{base:8X}\<close>, whose fill character is the space: for the base address
  \<open>0x1000\<close> of \<open>port_a\<close> the declaration reads \<^verbatim>\<open>0x    1000\<close>.
\<close>

theorem short_base_address_padding:
  "PeripheralBaseDeclaration port_a =
     ''\<newline>const PORTA_BASE: StaticRef<PortaRegisters> =\<newline>    unsafe { StaticRef::new(0x    1000 as *const PortaRegisters) };\<newline>'' \<and>
   p_base_address port_a = 0x1000 \<and> format_8X 0x1000 = ''    1000''"
  by code_simp

subsection \<open>The register \<open>CTRL\<close> of the specification\<close>

text \<open>
  C5 (as stated, refuted). The claim: the register \<open>CTRL\<close> (width 32, read-write, fields
  \<open>EN\<close> and \<open>MODE\<close>, the latter with the values described as Fast and Slow) has the struct
  member \<^verbatim>\<open>ctrl: ReadWrite<u32, Ctrl::Register>\<close>. The type reference is built from the
  register's name as it is, not from its title-cased form: the member reads
  \<^verbatim>\<open>CTRL::Register\<close>, and \<^verbatim>\<open>Ctrl::Register\<close> occurs nowhere in it.
\<close>

theorem ctrl_example_counterexample:
  "PeripheralStructField ctrl_register =
     Inr ''/// Control\<newline>ctrl: ReadWrite<u32, CTRL::Register>,'' \<and>
   \<not> sublist ''Ctrl::Register'' ''/// Control\<newline>ctrl: ReadWrite<u32, CTRL::Register>,''"
  by code_simp


text \<open>
  C5 (amended). For every register description, field descriptions, value names and
  literal values, and every \<open>upper_camel\<close> that maps \<open>Fast\<close> and \<open>Slow\<close> to themselves, the
  register \<open>CTRL\<close> has the struct member \<^verbatim>\<open>ctrl: ReadWrite<u32, CTRL::Register>,\<close> under its
  comment line, and the bitfield block \<open>CTRL\<close> with \<open>EN\<close> at offset 0 over 1 bit and an empty
  variant list, and \<open>MODE\<close> at offset 1 over 2 bits with the variants \<open>Fast\<close> and \<open>Slow\<close>
  bound to their literal values, each element under its comment line.
\<close>

theorem ctrl_example_rendering:
  assumes "upper_camel ''Fast'' = Inr ''Fast''" and "upper_camel ''Slow'' = Inr ''Slow''"
  shows "PeripheralStructField (ctrl_example rd d_en d_mode n1 v1 n2 v2) =
       Inr (comment rd @ ''\<newline>ctrl: ReadWrite<u32, CTRL::Register>,'') \<and>
     Bitfield upper_camel (ctrl_example rd d_en d_mode n1 v1 n2 v2) =
       Inr (''\<newline>CTRL [\<newline>    '' @ comment d_en @
            ''\<newline>    EN OFFSET(0) NUMBITS(1) [],\<newline>    '' @ comment d_mode @
            ''\<newline>    MODE OFFSET(1) NUMBITS(2) [\<newline>        /// Fast\<newline>        Fast = '' @
            str_int v1 @ '',\<newline>        /// Slow\<newline>        Slow = '' @ str_int v2 @
            ''\<newline>    ]\<newline>]'')"
proof
  show "PeripheralStructField (ctrl_example rd d_en d_mode n1 v1 n2 v2) =
      Inr (comment rd @ ''\<newline>ctrl: ReadWrite<u32, CTRL::Register>,'')"
    by (simp add: PeripheralStructField_def PeripheralStructField_fields_def ctrl_example_def
        mode_map_read_write register_identifier_CTRL register_definition_def str_int_32)
next
  have en: "enumerated_values_loop []
      [\<lparr>e_name = n1, e_description = ''Fast'', e_value = v1\<rparr>,
       \<lparr>e_name = n2, e_description = ''Slow'', e_value = v2\<rparr>] =
      [\<lparr>e_name = n1, e_description = ''Fast'', e_value = v1\<rparr>,
       \<lparr>e_name = n2, e_description = ''Slow'', e_value = v2\<rparr>]"
    by simp
  show "Bitfield upper_camel (ctrl_example rd d_en d_mode n1 v1 n2 v2) =
      Inr (''\<newline>CTRL [\<newline>    '' @ comment d_en @
           ''\<newline>    EN OFFSET(0) NUMBITS(1) [],\<newline>    '' @ comment d_mode @
           ''\<newline>    MODE OFFSET(1) NUMBITS(2) [\<newline>        /// Fast\<newline>        Fast = '' @
           str_int v1 @ '',\<newline>        /// Slow\<newline>        Slow = '' @ str_int v2 @
           ''\<newline>    ]\<newline>]'')"
    by (simp add: Bitfield_def BitfieldField_def BitfieldField_fields_def ctrl_example_def
        enumerated_values_def en BitfieldFieldEnum_Fast BitfieldFieldEnum_Slow assms
        str_int_small)
qed

theorem ctrl_example_rendering_witness:
  "PeripheralStructField ctrl_register =
     Inr ''/// Control\<newline>ctrl: ReadWrite<u32, CTRL::Register>,'' \<and>
   Bitfield upper_camel_stub ctrl_register =
     Inr ''\<newline>CTRL [\<newline>    /// Enable\<newline>    EN OFFSET(0) NUMBITS(1) [],\<newline>    /// Mode\<newline>    MODE OFFSET(1) NUMBITS(2) [\<newline>        /// Fast\<newline>        Fast = 0,\<newline>        /// Slow\<newline>        Slow = 1\<newline>    ]\<newline>]''"
proof -
  have f: "upper_camel_stub ''Fast'' = Inr ''Fast''" and s: "upper_camel_stub ''Slow'' = Inr ''Slow''"
    by (simp_all add: upper_camel_stub_def)
  have c: "comment ''Control'' = ''/// Control''" "comment ''Enable'' = ''/// Enable''"
    "comment ''Mode'' = ''/// Mode''"
    by code_simp+
  from ctrl_example_rendering [of upper_camel_stub "''Control''" "''Enable''" "''Mode''" "''FAST''" 0
      "''SLOW''" 1, OF f s]
  show ?thesis
    by (simp add: ctrl_register_def c str_int_small)
qed

subsection \<open>Enumerated values\<close>



subsection \<open>Identifiers\<close>




text \<open>
  C6 (as stated, refuted). The claim: every emitted identifier is valid in the target
  language, reserved words being escaped, also a field's name inside a bitfield block.
  \<open>BitfieldField\<close> emits the field's name as it is: the field \<open>mod_field\<close>, named by the
  reserved word \<open>mod\<close>, is emitted as \<open>mod\<close>, where the struct-member sanitizer would give
  \<open>mod_\<close>. That sanitizer knows the one reserved word of \<open>RUST_KEYWORDS\<close>: a register named
  \<open>IN\<close> gets the member name \<open>in\<close>, a reserved word of Rust.
\<close>

theorem emitted_identifiers_counterexample:
  "BitfieldField upper_camel_stub mod_field =
     Inr ''    /// Modulo\<newline>    mod OFFSET(3) NUMBITS(1) []'' \<and>
   f_name mod_field \<in> set RUST_KEYWORDS \<and>
   register_identifier (f_name mod_field) = ''mod_'' \<and>
   register_identifier ''IN'' = ''in''"
  by code_simp

text \<open>
  C6 (amended). In the output text, the struct member of a register starts, after its
  comment line, with the lower-cased register name, to which \<open>_\<close> is appended exactly when
  the lower-cased name is in \<open>RUST_KEYWORDS\<close>, so that the member name is never in that list;
  the line of a field in its bitfield block starts, after its comment line, with the
  field's name unchanged, followed by its offset and width; and the line of an emitted
  enum variant starts with a result of \<open>upper_camel\<close> that is non-empty and shorter than
  80 characters.
\<close>

theorem emitted_identifiers:
  "register_identifier name \<notin> set RUST_KEYWORDS \<and>
   (lower name \<in> set RUST_KEYWORDS \<longrightarrow> register_identifier name = lower name @ ''_'') \<and>
   (lower name \<notin> set RUST_KEYWORDS \<longrightarrow> register_identifier name = lower name) \<and>
   (\<forall>line. PeripheralStructField r = Inr line \<longrightarrow>
      (\<exists>mode. map_of mode_map (r_access r) = Some mode \<and>
         line = comment (r_description r) @ ''\<newline>'' @ register_identifier (r_name r) @
                '': '' @ mode @ ''<u'' @ str_int (r_size r) @ register_definition r @ ''>,'')) \<and>
   (\<forall>b. BitfieldField upper_camel fld = Inr b \<longrightarrow>
      (\<exists>enums. b = ''    '' @ comment (f_description fld) @ ''\<newline>    '' @ f_name fld @
                  '' OFFSET('' @ str_int (f_bit_offset fld) @ '') NUMBITS('' @
                  str_int (f_bit_width fld) @ '') '' @ enums)) \<and>
   (\<forall>b. BitfieldFieldEnum upper_camel e = Inr b \<longrightarrow>
      (\<exists>i. b = ''        '' @ comment (e_description e) @ ''\<newline>        '' @ i @ '' = '' @
              str_int (e_value e) \<and>
           i \<noteq> [] \<and> length i < 80 \<and> (\<exists>s. upper_camel s = Inr i)))"
proof (intro conjI allI impI)
  show "register_identifier name \<notin> set RUST_KEYWORDS"
    by (simp add: register_identifier_def RUST_KEYWORDS_def Let_def)
  show "register_identifier name = lower name @ ''_''" if "lower name \<in> set RUST_KEYWORDS"
    using that by (simp add: register_identifier_def Let_def)
  show "register_identifier name = lower name" if "lower name \<notin> set RUST_KEYWORDS"
    using that by (simp add: register_identifier_def Let_def)
  show "\<exists>mode. map_of mode_map (r_access r) = Some mode \<and>
      line = comment (r_description r) @ ''\<newline>'' @ register_identifier (r_name r) @
             '': '' @ mode @ ''<u'' @ str_int (r_size r) @ register_definition r @ ''>,''"
    if "PeripheralStructField r = Inr line" for line
    using that
    by (auto simp: PeripheralStructField_def PeripheralStructField_fields_def
        split: option.splits)
  show "\<exists>enums. b = ''    '' @ comment (f_description fld) @ ''\<newline>    '' @ f_name fld @
        '' OFFSET('' @ str_int (f_bit_offset fld) @ '') NUMBITS('' @
        str_int (f_bit_width fld) @ '') '' @ enums"
    if "BitfieldField upper_camel fld = Inr b" for b
    using that
    by (auto simp: BitfieldField_def BitfieldField_fields_def split: sum.splits if_splits)
  show "\<exists>i. b = ''        '' @ comment (e_description e) @ ''\<newline>        '' @ i @ '' = '' @
        str_int (e_value e) \<and>
      i \<noteq> [] \<and> length i < 80 \<and> (\<exists>s. upper_camel s = Inr i)"
    if "BitfieldFieldEnum upper_camel e = Inr b" for b
  proof -
    from BitfieldFieldEnum_text [OF that] obtain i where
      b: "b = ''        '' @ comment (e_description e) @ ''\<newline>        '' @ i @ '' = '' @
        str_int (e_value e)"
      and i: "enum_identifier upper_camel e = Inr (Some i)"
      by blast
    from enum_identifier_Inr [OF i] b show ?thesis
      by (intro exI [of _ i]) simp
  qed
qed

theorem emitted_identifiers_witness:
  "register_identifier ''MOD'' = ''mod_'' \<and> register_identifier ''CTRL'' = ''ctrl'' \<and>
   PeripheralStructField timer_mod = Inr ''/// Modulo\<newline>mod_: ReadWrite<u16>,'' \<and>
   BitfieldField upper_camel_stub mod_field =
     Inr ''    /// Modulo\<newline>    mod OFFSET(3) NUMBITS(1) []'' \<and>
   (\<exists>enums. ''    /// Modulo\<newline>    mod OFFSET(3) NUMBITS(1) []'' =
      ''    /// Modulo\<newline>    '' @ f_name mod_field @ '' OFFSET(3) NUMBITS(1) '' @ enums)"
proof -
  let ?e = "\<lparr>e_name = ''ON'', e_description = ''On'', e_value = 1\<rparr>"
  have a: "lower ''MOD'' \<in> set RUST_KEYWORDS" and b: "lower ''CTRL'' \<notin> set RUST_KEYWORDS"
    and l: "lower ''MOD'' = ''mod''" "lower ''CTRL'' = ''ctrl''"
    by code_simp+
  have s: "PeripheralStructField timer_mod = Inr ''/// Modulo\<newline>mod_: ReadWrite<u16>,''"
    by code_simp
  have f: "BitfieldField upper_camel_stub mod_field =
      Inr ''    /// Modulo\<newline>    mod OFFSET(3) NUMBITS(1) []''"
    by code_simp
  have c: "comment (f_description mod_field) = ''/// Modulo''"
    "str_int (f_bit_offset mod_field) = ''3''" "str_int (f_bit_width mod_field) = ''1''"
    by code_simp+
  from emitted_identifiers [of "''MOD''" timer_mod upper_camel_stub mod_field ?e] a l
  have 1: "register_identifier ''MOD'' = ''mod_''" by simp
  from emitted_identifiers [of "''CTRL''" timer_mod upper_camel_stub mod_field ?e] b l
  have 2: "register_identifier ''CTRL'' = ''ctrl''" by simp
  from emitted_identifiers [of "''MOD''" timer_mod upper_camel_stub mod_field ?e] f
  obtain enums where "''    /// Modulo\<newline>    mod OFFSET(3) NUMBITS(1) []'' =
      ''    '' @ comment (f_description mod_field) @ ''\<newline>    '' @ f_name mod_field @
      '' OFFSET('' @ str_int (f_bit_offset mod_field) @ '') NUMBITS('' @
      str_int (f_bit_width mod_field) @ '') '' @ enums"
    by blast
  with c have 3: "\<exists>enums. ''    /// Modulo\<newline>    mod OFFSET(3) NUMBITS(1) []'' =
      ''    /// Modulo\<newline>    '' @ f_name mod_field @ '' OFFSET(3) NUMBITS(1) '' @ enums"
    by (intro exI [of _ enums]) simp
  from 1 2 3 s f show ?thesis by simp
qed

end
